theory Spec2Isabelle
  imports Main
begin

section \<open>Strings and the regular expressions of the router\<close>

text \<open>
  A JavaScript string is a sequence of UTF-16 code units; a code unit is modelled by its
  number. The source's patterns contain only ASCII letters, the space and the three
  characters \<open>?\<close> (63), the full-width question mark (U+FF1F, 65311) and the
  full-width exclamation mark (U+FF01, 65281).
\<close>

type_synonym jsstring = "nat list"

text \<open>An ASCII literal of the source, as a sequence of code units.\<close>

definition str :: "string \<Rightarrow> jsstring" where
  "str s = map of_char s"

text \<open>The class \<open>\w\<close> of a pattern without the \<open>u\<close> flag: \<open>[A-Za-z0-9_]\<close>.\<close>

definition isWordChar :: "nat \<Rightarrow> bool" where
  "isWordChar c = ((48 \<le> c \<and> c \<le> 57) \<or> (65 \<le> c \<and> c \<le> 90) \<or> c = 95 \<or> (97 \<le> c \<and> c \<le> 122))"

text \<open>
  What \<open>String.prototype.trim\<close> strips: the WhiteSpace and LineTerminator code points
  (TAB, LF, VT, FF, CR, SP, NBSP, U+1680, U+2000..U+200A, U+2028, U+2029, U+202F, U+205F,
  U+3000, U+FEFF).
\<close>

definition isWhiteSpace :: "nat \<Rightarrow> bool" where
  "isWhiteSpace c = ((9 \<le> c \<and> c \<le> 13) \<or> c = 32 \<or> c = 160 \<or> c = 5760 \<or> (8192 \<le> c \<and> c \<le> 8202)
     \<or> c = 8232 \<or> c = 8233 \<or> c = 8239 \<or> c = 8287 \<or> c = 12288 \<or> c = 65279)"

definition trim :: "jsstring \<Rightarrow> jsstring" where
  "trim s = rev (dropWhile isWhiteSpace (rev (dropWhile isWhiteSpace s)))"

text \<open>
  \<open>String.prototype.toLowerCase\<close>, unit by unit. The letters \<open>A-Z\<close> go to \<open>a-z\<close>; the
  only code points outside ASCII whose lower case contains an ASCII unit are the Kelvin
  sign U+212A (to \<open>k\<close>) and U+0130 (to \<open>i\<close> followed by U+0307). Every other unit
  outside ASCII is mapped by JavaScript to units outside ASCII; the patterns below tell
  such units apart from nothing but ASCII, so they are left as they are.
\<close>

definition lowerUnit :: "nat \<Rightarrow> jsstring" where
  "lowerUnit c = (if 65 \<le> c \<and> c \<le> 90 then [c + 32]
                  else if c = 8490 then [107]
                  else if c = 304 then [105, 775]
                  else [c])"

definition toLowerCase :: "jsstring \<Rightarrow> jsstring" where
  "toLowerCase s = concat (map lowerUnit s)"

text \<open>
  The flag \<open>i\<close> of a pattern without the flag \<open>u\<close>: two units match when their
  canonical forms are equal, and a unit outside ASCII is never canonicalised into ASCII.
  Against a pattern of ASCII letters this is comparison after folding \<open>A-Z\<close> to \<open>a-z\<close>.
\<close>

definition foldUnit :: "nat \<Rightarrow> nat" where
  "foldUnit c = (if 65 \<le> c \<and> c \<le> 90 then c + 32 else c)"

definition hdOpt :: "jsstring \<Rightarrow> nat option" where
  "hdOpt s = (case s of [] \<Rightarrow> None | c # _ \<Rightarrow> Some c)"

definition isW :: "nat option \<Rightarrow> bool" where
  "isW p = (case p of None \<Rightarrow> False | Some c \<Rightarrow> isWordChar c)"

text \<open>
  The assertion \<open>\b\<close> between the unit before the current position (\<open>None\<close> at the start
  of the input) and the unit at it (\<open>None\<close> at the end).
\<close>

definition wordBoundary :: "nat option \<Rightarrow> nat option \<Rightarrow> bool" where
  "wordBoundary prev next = (isW prev \<noteq> isW next)"

definition startsWith :: "jsstring \<Rightarrow> jsstring \<Rightarrow> bool" where
  "startsWith w s = (take (length w) s = w)"

text \<open>
  One alternative \<open>w\<close> of \<open>\b(w1|...|wn)\b\<close> tried at the current position: \<open>prev\<close> is the
  unit before it and \<open>rest\<close> the input from it on.
\<close>

definition altAt :: "nat option \<Rightarrow> jsstring \<Rightarrow> jsstring \<Rightarrow> bool" where
  "altAt prev w rest =
     (wordBoundary prev (hdOpt rest) \<and> startsWith w rest \<and>
      wordBoundary (if w = [] then prev else Some (last w)) (hdOpt (drop (length w) rest)))"

text \<open>The search of \<open>RegExp.prototype.test\<close>: every start position, left to right.\<close>

fun searchFrom :: "nat option \<Rightarrow> jsstring list \<Rightarrow> jsstring \<Rightarrow> bool" where
  "searchFrom prev ws [] = list_ex (\<lambda>w. altAt prev w []) ws"
| "searchFrom prev ws (c # cs) = (list_ex (\<lambda>w. altAt prev w (c # cs)) ws \<or> searchFrom (Some c) ws cs)"

text \<open>\<open>/\b(w1|...|wn)\b/.test(text)\<close>\<close>

definition wordRe :: "jsstring list \<Rightarrow> jsstring \<Rightarrow> bool" where
  "wordRe ws text = searchFrom None ws text"

text \<open>\<open>/\b(w1|...|wn)\b/i.test(text)\<close>: the units of the pattern and of the input are
  compared in canonical form.\<close>

definition wordReI :: "jsstring list \<Rightarrow> jsstring \<Rightarrow> bool" where
  "wordReI ws text = wordRe (map (map foldUnit) ws) (map foldUnit text)"

text \<open>\<open>/^(w1|...|wn)$/.test(text)\<close>: without the flag \<open>m\<close> the anchors are the two ends of the input.\<close>

definition fullRe :: "jsstring list \<Rightarrow> jsstring \<Rightarrow> bool" where
  "fullRe ws text = list_ex (\<lambda>w. text = w) ws"

text \<open>\<open>/[c1...cn]$/.test(text)\<close>\<close>

definition endRe :: "nat list \<Rightarrow> jsstring \<Rightarrow> bool" where
  "endRe cs text = (case rev text of [] \<Rightarrow> False | c # _ \<Rightarrow> list_ex (\<lambda>d. c = d) cs)"

section \<open>The data model\<close>

datatype action = analyze_pattern | log_outcome | create_plan | revise_plan | direct_answer | general_chat

datatype role = User | Assistant

record turn =
  role :: role
  content :: jsstring

record profile =
  prefersShortSentences :: bool
  weakAreas :: "jsstring list"

text \<open>The property \<open>outcomeNote\<close> of a session object: missing, \<open>null\<close>, or a string.\<close>

datatype noteValue = Undefined | Null | Note jsstring

text \<open>
  A session object. The spread \<open>{...state.lastSession, ...}\<close> of a \<open>null\<close> session yields
  an object without the properties that are not written afterwards, so every property may
  be missing (\<open>None\<close>). The property \<open>id\<close> is the field \<open>sid\<close>.
\<close>

record session =
  sid :: "jsstring option"
  timestamp :: "nat option"
  goal :: "jsstring option"
  action :: "action option"
  plan :: "jsstring option"
  outcomeNote :: noteValue

text \<open>
  The state object. \<open>lastSession\<close> is \<open>null\<close> or an object; \<open>lastAnalysis\<close> is a string or
  \<open>null\<close>/\<open>undefined\<close> (\<open>JSON.stringify\<close> drops an undefined property and \<open>loadStudyState\<close>
  puts the default \<open>null\<close> back, so the two are one value here).
\<close>

record userState =
  profile :: profile
  recentHistory :: "turn list"
  lastSession :: "session option"
  sessions :: "session list"
  lastAnalysis :: "jsstring option"

section \<open>The router\<close>

text \<open>
  \<open>isDirectQuestion\<close>. The message is a string; \<open>!message\<close> holds of the empty string.
\<close>

definition isDirectQuestion :: "jsstring \<Rightarrow> bool" where
  "isDirectQuestion message =
     (if message = [] then False
      else let trimmed = trim message in
        if wordReI [str ''plan'', str ''schedule'', str ''session'', str ''block''] trimmed then False
        else endRe [63, 65311, 65281] trimmed \<and>
             \<not> wordReI [str ''we'', str ''I'', str ''me'', str ''my''] trimmed)"

text \<open>Rule 5 of \<open>chooseAction\<close>, on the lower-cased message.\<close>

definition affirmationRe :: "jsstring \<Rightarrow> bool" where
  "affirmationRe text =
     fullRe [str ''ok'', str ''okay'', str ''sure'', str ''fine'', str ''yes'', str ''go ahead'', str ''do it''] text"

text \<open>
  \<open>chooseAction\<close>. \<open>analy[sz]e\<close> is written as its two alternatives; \<open>state.lastSession\<close> is
  truthy exactly when it is not \<open>null\<close>; \<open>(message || "")\<close> is the message, a string.
\<close>

definition chooseAction :: "userState \<Rightarrow> jsstring \<Rightarrow> action" where
  "chooseAction state message =
     (let text = toLowerCase message in
      if wordRe [str ''analyse'', str ''analyze'', str ''pattern'', str ''habit'', str ''trend'', str ''history''] text
        then analyze_pattern
      else if wordRe [str ''finished'', str ''completed'', str ''done'', str ''did it'', str ''failed'',
                      str ''stuck'', str ''fell behind''] text \<and> lastSession state \<noteq> None
        then log_outcome
      else if wordRe [str ''plan'', str ''schedule'', str ''agenda'', str ''block'', str ''timetable'',
                      str ''routine''] text
        then (if lastSession state \<noteq> None then revise_plan else create_plan)
      else if wordRe [str ''change'', str ''adjust'', str ''revise'', str ''modify'', str ''tweak'',
                      str ''shorter'', str ''longer''] text \<and> lastSession state \<noteq> None
        then revise_plan
      else if affirmationRe text then general_chat
      else if wordRe [str ''study'', str ''learn'', str ''review'', str ''prep'', str ''prepare''] text
        then create_plan
      else if isDirectQuestion message then direct_answer
      else general_chat)"

section \<open>The generation engine\<close>

text \<open>
  The value \<open>env.AI.run\<close> resolves to: \<open>null\<close>/\<open>undefined\<close> (\<open>None\<close>) or an object whose
  properties \<open>result\<close> and \<open>response\<close> are strings or missing.
\<close>

record aiResult =
  result :: "jsstring option"
  response :: "jsstring option"

text \<open>
  The system prompt of a call: the fixed text of each template is its constructor, the
  interpolated values are its arguments. \<open>AnalyzePrompt\<close> carries the sessions that
  \<open>JSON.stringify\<close> writes into the prompt.
\<close>

datatype prompt =
    ChatPrompt jsstring jsstring
  | AnswerPrompt
  | PlanPrompt jsstring jsstring
  | RevisePrompt jsstring jsstring
  | OutcomePrompt jsstring jsstring
  | AnalyzePrompt "session list" jsstring

record aiRequest =
  systemPrompt :: prompt
  userContent :: jsstring
  max_tokens :: nat

text \<open>The engine, \<open>env.AI.run(MODEL, request)\<close>, is a parameter of every handler.\<close>

type_synonym engine = "aiRequest \<Rightarrow> aiResult option"

text \<open>\<open>v || d\<close> for a string or missing \<open>v\<close>: the empty string is falsy.\<close>

definition orElse :: "jsstring option \<Rightarrow> jsstring \<Rightarrow> jsstring" where
  "orElse v d = (case v of None \<Rightarrow> d | Some s \<Rightarrow> if s = [] then d else s)"

text \<open>\<open>aiResult?.result\<close> and \<open>aiResult?.response\<close>\<close>

definition optResult :: "aiResult option \<Rightarrow> jsstring option" where
  "optResult r = (case r of None \<Rightarrow> None | Some a \<Rightarrow> result a)"

definition optResponse :: "aiResult option \<Rightarrow> jsstring option" where
  "optResponse r = (case r of None \<Rightarrow> None | Some a \<Rightarrow> response a)"

text \<open>\<open>aiResult?.result || aiResult?.response || fallback\<close>\<close>

definition replyText :: "aiResult option \<Rightarrow> jsstring \<Rightarrow> jsstring" where
  "replyText r fallback = orElse (optResult r) (orElse (optResponse r) fallback)"

section \<open>Helpers\<close>

text \<open>\<open>Array.prototype.join\<close>\<close>

fun joinWith :: "jsstring \<Rightarrow> jsstring list \<Rightarrow> jsstring" where
  "joinWith sep [] = []"
| "joinWith sep [x] = x"
| "joinWith sep (x # y # ys) = x @ sep @ joinWith sep (y # ys)"

definition formatHistory :: "turn list \<Rightarrow> jsstring" where
  "formatHistory history =
     (if history = [] then []
      else joinWith [10]
             (map (\<lambda>msg. (if role msg = User then str ''User'' else str ''Assistant'') @ str '': '' @ content msg)
                  history))"

text \<open>\<open>xs.slice(-n)\<close>: the last \<open>n\<close> elements, all of them when there are fewer.\<close>

definition sliceLast :: "nat \<Rightarrow> 'a list \<Rightarrow> 'a list" where
  "sliceLast n xs = drop (length xs - n) xs"

text \<open>\<open>String(n)\<close> of a non-negative integer: its decimal digits.\<close>

fun numberToString :: "nat \<Rightarrow> jsstring" where
  "numberToString n = (if n < 10 then [48 + n] else numberToString (n div 10) @ [48 + n mod 10])"

declare numberToString.simps [simp del]

section \<open>State management\<close>

definition defaults :: userState where
  "defaults = \<lparr>profile = \<lparr>prefersShortSentences = True, weakAreas = []\<rparr>,
               recentHistory = [], lastSession = None, sessions = [], lastAnalysis = None\<rparr>"

text \<open>
  \<open>loadStudyState\<close>. The entry of the store is missing (\<open>None\<close>) or a record; a stored
  record is taken with every property it lacks filled from \<open>defaults\<close>, which is how the
  merge \<open>{...defaults, ...stored}\<close> returns it, and its two lists are arrays.
\<close>

definition loadStudyState :: "userState option \<Rightarrow> userState" where
  "loadStudyState stored = (case stored of None \<Rightarrow> defaults | Some s \<Rightarrow> s)"

text \<open>\<open>saveStudyState\<close>: the record that is written to the store.\<close>

definition saveStudyState :: "userState \<Rightarrow> userState" where
  "saveStudyState state =
     (if length (recentHistory state) > 8
      then state\<lparr>recentHistory := sliceLast 8 (recentHistory state)\<rparr>
      else state)"

section \<open>Handlers\<close>

record outcome =
  reply :: jsstring
  newState :: userState

definition handleGeneralChat :: "engine \<Rightarrow> userState \<Rightarrow> jsstring \<Rightarrow> outcome" where
  "handleGeneralChat env state message =
     (let historyStr = formatHistory (recentHistory state);
          aiResult = env \<lparr>systemPrompt = ChatPrompt historyStr message, userContent = message, max_tokens = 500\<rparr>
      in \<lparr>reply = replyText aiResult (str ''How can I help you study today?''), newState = state\<rparr>)"

definition answerDirectQuestion :: "engine \<Rightarrow> userState \<Rightarrow> jsstring \<Rightarrow> outcome" where
  "answerDirectQuestion env state message =
     (let aiResult = env \<lparr>systemPrompt = AnswerPrompt, userContent = message, max_tokens = 300\<rparr>
      in \<lparr>reply = replyText aiResult (str ''I don'' @ [39] @ str ''t know.''), newState = state\<rparr>)"

text \<open>
  \<open>createPlan\<close>. \<open>idNow\<close> and \<open>tsNow\<close> are what the two calls of \<open>Date.now()\<close> return.
\<close>

definition createPlan :: "engine \<Rightarrow> nat \<Rightarrow> nat \<Rightarrow> userState \<Rightarrow> jsstring \<Rightarrow> outcome" where
  "createPlan env idNow tsNow state message =
     (let historyStr = formatHistory (recentHistory state);
          aiResult = env \<lparr>systemPrompt = PlanPrompt historyStr message, userContent = message, max_tokens = 2048\<rparr>;
          planText = replyText aiResult (str ''Could not generate plan.'');
          session = \<lparr>sid = Some (numberToString idNow), timestamp = Some tsNow, goal = Some message,
                     action = Some create_plan, plan = Some planText, outcomeNote = Null\<rparr>;
          sessions = sessions state @ [session]
      in \<lparr>reply = planText, newState = state\<lparr>lastSession := Some session, sessions := sessions\<rparr>\<rparr>)"

text \<open>The spread \<open>{...state.lastSession}\<close>: of \<open>null\<close>, an object without properties.\<close>

definition spread :: "session option \<Rightarrow> session" where
  "spread v = (case v of
       None \<Rightarrow> \<lparr>sid = None, timestamp = None, goal = None, action = None, plan = None, outcomeNote = Undefined\<rparr>
     | Some s \<Rightarrow> s)"

text \<open>
  The plan text interpolated into a prompt: \<open>state.lastSession ? state.lastSession.plan : none\<close>;
  a missing \<open>plan\<close> is interpolated as \<open>undefined\<close>.
\<close>

definition lastPlanOr :: "userState \<Rightarrow> jsstring \<Rightarrow> jsstring" where
  "lastPlanOr state none =
     (case lastSession state of
        None \<Rightarrow> none
      | Some s \<Rightarrow> (case plan s of None \<Rightarrow> str ''undefined'' | Some p \<Rightarrow> p))"

definition revisePlan :: "engine \<Rightarrow> nat \<Rightarrow> nat \<Rightarrow> userState \<Rightarrow> jsstring \<Rightarrow> outcome" where
  "revisePlan env idNow tsNow state message =
     (let lastPlan = lastPlanOr state (str ''No active plan.'');
          aiResult = env \<lparr>systemPrompt = RevisePrompt lastPlan message, userContent = message, max_tokens = 2048\<rparr>;
          newPlan = replyText aiResult (str ''Could not revise plan.'');
          session = (spread (lastSession state))
                      \<lparr>sid := Some (numberToString idNow), timestamp := Some tsNow,
                       action := Some revise_plan, plan := Some newPlan\<rparr>
      in \<lparr>reply = newPlan,
          newState = state\<lparr>lastSession := Some session, sessions := sessions state @ [session]\<rparr>\<rparr>)"

definition logOutcome :: "engine \<Rightarrow> userState \<Rightarrow> jsstring \<Rightarrow> outcome" where
  "logOutcome env state message =
     (let lastPlan = lastPlanOr state (str ''(No plan)'');
          aiResult = env \<lparr>systemPrompt = OutcomePrompt lastPlan message, userContent = message, max_tokens = 300\<rparr>;
          reply = replyText aiResult (str ''Logged.'');
          sessions = (if length (sessions state) > 0
                      then (sessions state)[length (sessions state) - 1 :=
                             (sessions state ! (length (sessions state) - 1))\<lparr>outcomeNote := Note message\<rparr>]
                      else sessions state)
      in \<lparr>reply = reply,
          newState = state\<lparr>lastSession := Some ((spread (lastSession state))\<lparr>outcomeNote := Note message\<rparr>),
                           sessions := sessions\<rparr>\<rparr>)"

text \<open>\<open>analyzePattern\<close>. \<open>state.sessions || []\<close> is \<open>state.sessions\<close>: an array is truthy.\<close>

definition analyzePattern :: "engine \<Rightarrow> userState \<Rightarrow> jsstring \<Rightarrow> outcome" where
  "analyzePattern env state message =
     (let sessions = sessions state;
          aiResult = env \<lparr>systemPrompt = AnalyzePrompt (sliceLast 10 sessions) message,
                          userContent = str ''Analyze my patterns'', max_tokens = 500\<rparr>
      in \<lparr>reply = replyText aiResult (str ''No data.''),
          newState = state\<lparr>lastAnalysis := optResult aiResult\<rparr>\<rparr>)"

section \<open>The chat endpoint\<close>

text \<open>What one request brings with it: the message, the engine and the clock's two readings.\<close>

record request =
  reqMessage :: jsstring
  reqEngine :: engine
  reqIdNow :: nat
  reqTsNow :: nat

definition dispatch :: "action \<Rightarrow> request \<Rightarrow> userState \<Rightarrow> outcome" where
  "dispatch a r state =
     (if a = direct_answer then answerDirectQuestion (reqEngine r) state (reqMessage r)
      else if a = create_plan then createPlan (reqEngine r) (reqIdNow r) (reqTsNow r) state (reqMessage r)
      else if a = revise_plan then revisePlan (reqEngine r) (reqIdNow r) (reqTsNow r) state (reqMessage r)
      else if a = log_outcome then logOutcome (reqEngine r) state (reqMessage r)
      else if a = analyze_pattern then analyzePattern (reqEngine r) state (reqMessage r)
      else handleGeneralChat (reqEngine r) state (reqMessage r))"

text \<open>
  \<open>POST /api/chat\<close> on the entry \<open>stored\<close> of the store: the response \<open>{reply, action}\<close>
  and the record that \<open>saveStudyState\<close> writes.
\<close>

definition chat :: "userState option \<Rightarrow> request \<Rightarrow> (jsstring \<times> action) \<times> userState" where
  "chat stored r =
     (let state = loadStudyState stored;
          a = chooseAction state (reqMessage r);
          outcome = dispatch a r state;
          updatedHistory = recentHistory state @
            [\<lparr>role = User, content = reqMessage r\<rparr>, \<lparr>role = Assistant, content = reply outcome\<rparr>];
          finalState = (newState outcome)\<lparr>recentHistory := updatedHistory\<rparr>
      in ((reply outcome, a), saveStudyState finalState))"

text \<open>The store after a sequence of requests, and the turns the sequence exchanged.\<close>

fun requests :: "userState option \<Rightarrow> request list \<Rightarrow> userState option" where
  "requests stored [] = stored"
| "requests stored (r # rs) = requests (Some (snd (chat stored r))) rs"

fun turns :: "userState option \<Rightarrow> request list \<Rightarrow> turn list" where
  "turns stored [] = []"
| "turns stored (r # rs) =
     [\<lparr>role = User, content = reqMessage r\<rparr>, \<lparr>role = Assistant, content = fst (fst (chat stored r))\<rparr>]
     @ turns (Some (snd (chat stored r))) rs"

text \<open>The states the worker can load: the store starts empty and only requests write it.\<close>

inductive reachable :: "userState \<Rightarrow> bool" where
  start: "reachable (loadStudyState None)"
| step: "reachable state \<Longrightarrow> reachable (loadStudyState (Some (snd (chat (Some state) r))))"

text \<open>
  The states that sequences of action transitions lead to from the default state, each
  transition being a handler's \<open>newState\<close>. With \<open>gated\<close>, \<open>log_outcome\<close> is taken only
  when \<open>lastSession\<close> is not \<open>null\<close>, which is when the router selects it; without, every
  transition is taken in every state.
\<close>

inductive byTransitions :: "bool \<Rightarrow> userState \<Rightarrow> bool" where
  initial: "byTransitions gated defaults"
| general: "byTransitions gated s \<Longrightarrow> byTransitions gated (newState (handleGeneralChat env s m))"
| answer: "byTransitions gated s \<Longrightarrow> byTransitions gated (newState (answerDirectQuestion env s m))"
| create: "byTransitions gated s \<Longrightarrow> byTransitions gated (newState (createPlan env idNow tsNow s m))"
| revise: "byTransitions gated s \<Longrightarrow> byTransitions gated (newState (revisePlan env idNow tsNow s m))"
| log: "byTransitions gated s \<Longrightarrow> (gated \<longrightarrow> lastSession s \<noteq> None) \<Longrightarrow>
        byTransitions gated (newState (logOutcome env s m))"
| analyze: "byTransitions gated s \<Longrightarrow> byTransitions gated (newState (analyzePattern env s m))"

section \<open>Notions used by the statements\<close>

text \<open>An engine that resolves to nothing, and one that answers every request with a text
  in the property \<open>response\<close>.\<close>

definition silentEngine :: engine where
  "silentEngine = (\<lambda>r. None)"

definition responseEngine :: "jsstring \<Rightarrow> engine" where
  "responseEngine t = (\<lambda>r. Some \<lparr>result = None, response = Some t\<rparr>)"

text \<open>A missing or empty text, and a payload that carries no text at all.\<close>

definition noText :: "jsstring option \<Rightarrow> bool" where
  "noText v = (case v of None \<Rightarrow> True | Some s \<Rightarrow> s = [])"

definition emptyPayload :: "aiResult option \<Rightarrow> bool" where
  "emptyPayload r = (noText (optResult r) \<and> noText (optResponse r))"

text \<open>
  A keyword of a \<open>\b(...)\b\<close> pattern that begins and ends with a word character; every
  keyword of the source does.
\<close>

definition wordLike :: "jsstring \<Rightarrow> bool" where
  "wordLike w = (w \<noteq> [] \<and> isWordChar (hd w) \<and> isWordChar (last w))"

text \<open>
  The wording of the specification for \<open>isDirectQuestion\<close>: the trimmed message ends in a
  question mark (the ASCII one, the full-width one or the full-width exclamation mark), and
  neither a planning keyword nor a self-referential pronoun occurs in it as a whole word,
  letter case ignored.
\<close>

definition sameIgnoringCase :: "jsstring \<Rightarrow> jsstring \<Rightarrow> bool" where
  "sameIgnoringCase x y = (map foldUnit x = map foldUnit y)"

definition occursAsWord :: "jsstring \<Rightarrow> jsstring \<Rightarrow> bool" where
  "occursAsWord w text =
     (\<exists>pre mid post. text = pre @ mid @ post \<and> sameIgnoringCase mid w \<and>
        (pre = [] \<or> \<not> isWordChar (last pre)) \<and> (post = [] \<or> \<not> isWordChar (hd post)))"

definition endsInQuestionMark :: "jsstring \<Rightarrow> bool" where
  "endsInQuestionMark text = (text \<noteq> [] \<and> (last text = 63 \<or> last text = 65311 \<or> last text = 65281))"

definition isDirectQuestionSpec :: "jsstring \<Rightarrow> bool" where
  "isDirectQuestionSpec message =
     (endsInQuestionMark (trim message) \<and>
      \<not> list_ex (\<lambda>w. occursAsWord w (trim message)) [str ''plan'', str ''schedule'', str ''session'', str ''block''] \<and>
      \<not> list_ex (\<lambda>w. occursAsWord w (trim message)) [str ''we'', str ''I'', str ''me'', str ''my''])"

text \<open>
  A keyword occurs in a text as a whole word: no word character stands directly before it
  (\<open>prev\<close> is the unit before the text, if any) and none directly after it.
\<close>

definition wholeWord :: "nat option \<Rightarrow> jsstring \<Rightarrow> jsstring \<Rightarrow> bool" where
  "wholeWord prev w text =
     (\<exists>pre post. text = pre @ w @ post \<and> \<not> isW (if pre = [] then prev else Some (last pre)) \<and>
        \<not> isW (hdOpt post))"

text \<open>The fixed reply of each handler when the engine gives no text.\<close>

definition fallback :: "action \<Rightarrow> jsstring" where
  "fallback a = (case a of
       analyze_pattern \<Rightarrow> str ''No data.''
     | log_outcome \<Rightarrow> str ''Logged.''
     | create_plan \<Rightarrow> str ''Could not generate plan.''
     | revise_plan \<Rightarrow> str ''Could not revise plan.''
     | direct_answer \<Rightarrow> str ''I don'' @ [39] @ str ''t know.''
     | general_chat \<Rightarrow> str ''How can I help you study today?'')"

text \<open>\<open>lastSession\<close>, when it is not \<open>null\<close>, is the last element of \<open>sessions\<close>.\<close>

definition tracksLast :: "userState \<Rightarrow> bool" where
  "tracksLast s = (case lastSession s of None \<Rightarrow> True | Some x \<Rightarrow> sessions s \<noteq> [] \<and> last (sessions s) = x)"

text \<open>Example requests, and the state the first of them leaves in an empty store.\<close>

definition studyRequest :: request where
  "studyRequest = \<lparr>reqMessage = str ''I want to study graphs'', reqEngine = responseEngine (str ''Read chapter 1.''),
                    reqIdNow = 1700000000000, reqTsNow = 1700000000001\<rparr>"

definition doneRequest :: request where
  "doneRequest = \<lparr>reqMessage = str ''done'', reqEngine = silentEngine,
                   reqIdNow = 1700000005000, reqTsNow = 1700000005000\<rparr>"

definition greeting :: request where
  "greeting = \<lparr>reqMessage = str ''hi'', reqEngine = silentEngine,
                reqIdNow = 1700000009000, reqTsNow = 1700000009000\<rparr>"

definition firstSession :: session where
  "firstSession = \<lparr>sid = Some (numberToString 1700000000000), timestamp = Some 1700000000001,
                    goal = Some (str ''I want to study graphs''), action = Some create_plan,
                    plan = Some (str ''Read chapter 1.''), outcomeNote = Null\<rparr>"

definition drafted :: userState where
  "drafted = newState (createPlan (responseEngine (str ''Read chapter 1.'')) 1700000000000 1700000000001
                         defaults (str ''I want to study graphs''))"

definition planned :: userState where
  "planned = loadStudyState (Some (snd (chat (Some (loadStudyState None)) studyRequest)))"

section \<open>Independence of the router from the rest of the state\<close>

text \<open>
  C10. The action \<open>chooseAction\<close> returns depends on the state only through whether
  \<open>lastSession\<close> is \<open>null\<close>: two states that agree on that get the same action for every
  message, whatever their profile, history, sessions and last analysis.
\<close>

theorem chooseAction_reads_only_lastSession_null:
  assumes "(lastSession s1 = None) = (lastSession s2 = None)"
  shows "chooseAction s1 m = chooseAction s2 m"
proof -
  define b where "b = (lastSession s1 = None)"
  have s1: "(lastSession s1 = None) = b" and s2: "(lastSession s2 = None) = b"
    using assms b_def by auto
  show ?thesis
    by (simp only: chooseAction_def s1 s2)
qed

text \<open>The same on a profile, a history and an analysis that differ.\<close>

theorem chooseAction_reads_only_lastSession_null_witness:
  "(lastSession defaults = None) =
     (lastSession (defaults\<lparr>recentHistory := [\<lparr>role = User, content = str ''hi''\<rparr>],
                            lastAnalysis := Some (str ''late nights'')\<rparr>) = None)
   \<and> chooseAction defaults (str ''plan my week'') =
       chooseAction (defaults\<lparr>recentHistory := [\<lparr>role = User, content = str ''hi''\<rparr>],
                              lastAnalysis := Some (str ''late nights'')\<rparr>) (str ''plan my week'')"
  using chooseAction_reads_only_lastSession_null
    [of defaults "defaults\<lparr>recentHistory := [\<lparr>role = User, content = str ''hi''\<rparr>],
                           lastAnalysis := Some (str ''late nights'')\<rparr>" "str ''plan my week''"]
  by (simp add: defaults_def)

section \<open>Evaluation on concrete messages\<close>

lemmas regex_eval = str_def trim_def toLowerCase_def lowerUnit_def foldUnit_def wordRe_def wordReI_def
  altAt_def startsWith_def wordBoundary_def isW_def hdOpt_def isWordChar_def isWhiteSpace_def
  fullRe_def endRe_def affirmationRe_def

lemmas router_eval = chooseAction_def isDirectQuestion_def Let_def regex_eval

lemmas reply_eval = replyText_def optResult_def optResponse_def orElse_def silentEngine_def responseEngine_def

lemma str_eq_Nil [simp]: "(str s = []) = (s = [])"
  by (simp add: str_def)

lemma chooseAction_study: "chooseAction s (str ''I want to study graphs'') = create_plan"
  by (simp add: router_eval)

lemma chooseAction_hi: "chooseAction s (str ''hi'') = general_chat"
  by (simp add: router_eval)

lemma chooseAction_done:
  "chooseAction s (str ''done'') = (if lastSession s \<noteq> None then log_outcome else general_chat)"
  by (simp add: router_eval)

lemma chooseAction_shorter:
  "chooseAction s (str ''make it shorter'') = (if lastSession s \<noteq> None then revise_plan else general_chat)"
  by (simp add: router_eval)

lemma planned_eq:
  "planned =
     \<lparr>profile = \<lparr>prefersShortSentences = True, weakAreas = []\<rparr>,
      recentHistory = [\<lparr>role = User, content = str ''I want to study graphs''\<rparr>,
                       \<lparr>role = Assistant, content = str ''Read chapter 1.''\<rparr>],
      lastSession = Some firstSession,
      sessions = [firstSession],
      lastAnalysis = None\<rparr>"
  by (simp add: planned_def firstSession_def chat_def studyRequest_def chooseAction_study dispatch_def
        createPlan_def loadStudyState_def defaults_def saveStudyState_def reply_eval Let_def)

section \<open>Gates of the router\<close>

lemma chooseAction_revise_gate:
  "chooseAction state message = revise_plan \<Longrightarrow> lastSession state \<noteq> None"
  by (simp add: chooseAction_def Let_def split: if_splits)

lemma chooseAction_log_gate:
  "chooseAction state message = log_outcome \<Longrightarrow> lastSession state \<noteq> None"
  by (simp add: chooseAction_def Let_def split: if_splits)

section \<open>The handlers\<close>

text \<open>
  C7. \<open>createPlan\<close> appends exactly one session to \<open>sessions\<close>: its action is
  \<open>create_plan\<close>, its goal the message, its plan the generated text (the reply), its
  \<open>outcomeNote\<close> \<open>null\<close>, its id and timestamp the clock's readings; the same session
  becomes \<open>lastSession\<close>, and profile, history and last analysis stay as they were.
\<close>

theorem createPlan_appends_one_session:
  "sessions (newState (createPlan env idNow tsNow state message)) =
     sessions state @
       [\<lparr>sid = Some (numberToString idNow), timestamp = Some tsNow, goal = Some message,
         action = Some create_plan, plan = Some (reply (createPlan env idNow tsNow state message)),
         outcomeNote = Null\<rparr>]
   \<and> lastSession (newState (createPlan env idNow tsNow state message)) =
       Some \<lparr>sid = Some (numberToString idNow), timestamp = Some tsNow, goal = Some message,
             action = Some create_plan, plan = Some (reply (createPlan env idNow tsNow state message)),
             outcomeNote = Null\<rparr>
   \<and> length (sessions (newState (createPlan env idNow tsNow state message))) = length (sessions state) + 1
   \<and> reply (createPlan env idNow tsNow state message) =
       replyText (env \<lparr>systemPrompt = PlanPrompt (formatHistory (recentHistory state)) message,
                        userContent = message, max_tokens = 2048\<rparr>) (str ''Could not generate plan.'')
   \<and> profile (newState (createPlan env idNow tsNow state message)) = profile state
   \<and> recentHistory (newState (createPlan env idNow tsNow state message)) = recentHistory state
   \<and> lastAnalysis (newState (createPlan env idNow tsNow state message)) = lastAnalysis state"
  by (simp add: createPlan_def Let_def)

text \<open>
  C2, as the specification states it, fails when \<open>lastSession\<close> is \<open>null\<close>: the new session
  then has no goal at all, not the message.
\<close>

theorem revisePlan_goal_counterexample:
  "lastSession defaults = None
   \<and> map_option goal (lastSession (newState
        (revisePlan silentEngine 1700000000000 1700000000000 defaults (str ''make it shorter'')))) = Some None
   \<and> map_option goal (lastSession (newState
        (revisePlan silentEngine 1700000000000 1700000000000 defaults (str ''make it shorter''))))
       \<noteq> Some (Some (str ''make it shorter''))"
  by (simp add: revisePlan_def defaults_def spread_def Let_def)

text \<open>
  C2, amended. The router selects \<open>revise_plan\<close> only when \<open>lastSession\<close> is not \<open>null\<close>. On
  such a state \<open>revisePlan\<close> produces a session that is the prior one with the id and the
  timestamp of the clock's readings, action \<open>revise_plan\<close> and the generated text as plan,
  so its goal is the prior session's goal; it is appended to \<open>sessions\<close> and becomes
  \<open>lastSession\<close>.
\<close>

theorem revisePlan_inherits_goal:
  "(chooseAction state message = revise_plan \<longrightarrow> lastSession state \<noteq> None)
   \<and> (lastSession state = Some prev \<longrightarrow>
        lastSession (newState (revisePlan env idNow tsNow state message)) =
          Some (prev\<lparr>sid := Some (numberToString idNow), timestamp := Some tsNow, action := Some revise_plan,
                      plan := Some (reply (revisePlan env idNow tsNow state message))\<rparr>)
        \<and> sessions (newState (revisePlan env idNow tsNow state message)) =
          sessions state @
            [prev\<lparr>sid := Some (numberToString idNow), timestamp := Some tsNow, action := Some revise_plan,
                   plan := Some (reply (revisePlan env idNow tsNow state message))\<rparr>]
        \<and> map_option goal (lastSession (newState (revisePlan env idNow tsNow state message))) = Some (goal prev))"
proof -
  have gate: "chooseAction state message = revise_plan \<longrightarrow> lastSession state \<noteq> None"
    using chooseAction_revise_gate by blast
  have body: "lastSession state = Some prev \<longrightarrow>
        lastSession (newState (revisePlan env idNow tsNow state message)) =
          Some (prev\<lparr>sid := Some (numberToString idNow), timestamp := Some tsNow, action := Some revise_plan,
                      plan := Some (reply (revisePlan env idNow tsNow state message))\<rparr>)
        \<and> sessions (newState (revisePlan env idNow tsNow state message)) =
          sessions state @
            [prev\<lparr>sid := Some (numberToString idNow), timestamp := Some tsNow, action := Some revise_plan,
                   plan := Some (reply (revisePlan env idNow tsNow state message))\<rparr>]
        \<and> map_option goal (lastSession (newState (revisePlan env idNow tsNow state message))) = Some (goal prev)"
    by (simp add: revisePlan_def spread_def Let_def)
  from gate body show ?thesis by (rule conjI)
qed

text \<open>On the state with one session, revised with the feedback \<open>make it shorter\<close>.\<close>

theorem revisePlan_inherits_goal_witness:
  "chooseAction planned (str ''make it shorter'') = revise_plan
   \<and> lastSession planned = Some firstSession
   \<and> map_option goal (lastSession (newState
        (revisePlan (responseEngine (str ''Read section 1.'')) 1700000001000 1700000001001 planned
           (str ''make it shorter'')))) = Some (Some (str ''I want to study graphs''))
   \<and> sessions (newState
        (revisePlan (responseEngine (str ''Read section 1.'')) 1700000001000 1700000001001 planned
           (str ''make it shorter''))) =
       [firstSession,
        firstSession\<lparr>sid := Some (numberToString 1700000001000), timestamp := Some 1700000001001,
                     action := Some revise_plan, plan := Some (str ''Read section 1.'')\<rparr>]"
  using revisePlan_inherits_goal
    [of planned "str ''make it shorter''" firstSession "responseEngine (str ''Read section 1.'')"
        1700000001000 1700000001001]
  by (simp add: planned_eq chooseAction_shorter firstSession_def revisePlan_def reply_eval lastPlanOr_def Let_def)

text \<open>
  C4, as the specification states it, fails when \<open>lastSession\<close> is \<open>null\<close>: \<open>logOutcome\<close>
  does not leave it \<open>null\<close> but makes it an object whose only property is the note.
\<close>

theorem logOutcome_lastSession_counterexample:
  "lastSession defaults = None
   \<and> lastSession (newState (logOutcome silentEngine defaults (str ''done''))) =
       Some \<lparr>sid = None, timestamp = None, goal = None, action = None, plan = None,
             outcomeNote = Note (str ''done'')\<rparr>"
  by (simp add: logOutcome_def defaults_def spread_def Let_def)

lemma update_last:
  "xs \<noteq> [] \<Longrightarrow> xs[length xs - 1 := f (xs ! (length xs - 1))] = butlast xs @ [f (last xs)]"
  by (induction xs rule: rev_induct) (simp_all add: nth_append)

text \<open>
  C4, amended. The router selects \<open>log_outcome\<close> only when \<open>lastSession\<close> is not \<open>null\<close>. On
  such a state \<open>logOutcome\<close> sets \<open>outcomeNote\<close> to the message on \<open>lastSession\<close>; on every
  state it sets it on the last element of \<open>sessions\<close> when there is one and changes no other
  element, keeps the length of \<open>sessions\<close>, and, when \<open>sessions\<close> is empty, leaves it empty
  and still returns its reply.
\<close>

theorem logOutcome_notes_outcome:
  "(chooseAction state message = log_outcome \<longrightarrow> lastSession state \<noteq> None)
   \<and> (lastSession state = Some prev \<longrightarrow>
        lastSession (newState (logOutcome env state message)) = Some (prev\<lparr>outcomeNote := Note message\<rparr>))
   \<and> (sessions state \<noteq> [] \<longrightarrow>
        sessions (newState (logOutcome env state message)) =
          butlast (sessions state) @ [(last (sessions state))\<lparr>outcomeNote := Note message\<rparr>])
   \<and> (sessions state = [] \<longrightarrow> sessions (newState (logOutcome env state message)) = [])
   \<and> length (sessions (newState (logOutcome env state message))) = length (sessions state)
   \<and> reply (logOutcome env state message) =
        replyText (env \<lparr>systemPrompt = OutcomePrompt (lastPlanOr state (str ''(No plan)'')) message,
                         userContent = message, max_tokens = 300\<rparr>) (str ''Logged.'')"
proof -
  have gate: "chooseAction state message = log_outcome \<longrightarrow> lastSession state \<noteq> None"
    using chooseAction_log_gate by blast
  have ls: "lastSession state = Some prev \<longrightarrow>
        lastSession (newState (logOutcome env state message)) = Some (prev\<lparr>outcomeNote := Note message\<rparr>)"
    by (simp add: logOutcome_def spread_def Let_def)
  have nonempty: "sessions state \<noteq> [] \<longrightarrow>
        sessions (newState (logOutcome env state message)) =
          butlast (sessions state) @ [(last (sessions state))\<lparr>outcomeNote := Note message\<rparr>]"
    using update_last [of "sessions state" "\<lambda>s. s\<lparr>outcomeNote := Note message\<rparr>"]
    by (simp add: logOutcome_def Let_def)
  have empty: "sessions state = [] \<longrightarrow> sessions (newState (logOutcome env state message)) = []"
    by (simp add: logOutcome_def Let_def)
  have len: "length (sessions (newState (logOutcome env state message))) = length (sessions state)"
    by (simp add: logOutcome_def Let_def)
  have rep: "reply (logOutcome env state message) =
        replyText (env \<lparr>systemPrompt = OutcomePrompt (lastPlanOr state (str ''(No plan)'')) message,
                         userContent = message, max_tokens = 300\<rparr>) (str ''Logged.'')"
    by (simp add: logOutcome_def Let_def)
  from gate ls nonempty empty len rep show ?thesis by blast
qed

text \<open>
  On the state with one session the note lands on that session and on \<open>lastSession\<close>; on a
  state with a last session and an empty log the reply is still produced.
\<close>

theorem logOutcome_notes_outcome_witness:
  "chooseAction planned (str ''done'') = log_outcome
   \<and> lastSession planned = Some firstSession
   \<and> lastSession (newState (logOutcome silentEngine planned (str ''done''))) =
       Some (firstSession\<lparr>outcomeNote := Note (str ''done'')\<rparr>)
   \<and> sessions (newState (logOutcome silentEngine planned (str ''done''))) =
       [firstSession\<lparr>outcomeNote := Note (str ''done'')\<rparr>]
   \<and> sessions (planned\<lparr>sessions := []\<rparr>) = []
   \<and> sessions (newState (logOutcome silentEngine (planned\<lparr>sessions := []\<rparr>) (str ''done''))) = []
   \<and> reply (logOutcome silentEngine (planned\<lparr>sessions := []\<rparr>) (str ''done'')) = str ''Logged.''"
  using logOutcome_notes_outcome [of planned "str ''done''" firstSession silentEngine]
    logOutcome_notes_outcome [of "planned\<lparr>sessions := []\<rparr>" "str ''done''" firstSession silentEngine]
  by (simp add: planned_eq chooseAction_done reply_eval)

text \<open>
  C3. \<open>analyzePattern\<close> stores \<open>aiResult?.result\<close> in \<open>lastAnalysis\<close>, while its reply is
  \<open>aiResult?.result || aiResult?.response || "No data."\<close>. When the engine puts its text in
  \<open>response\<close>, the reply is that text and \<open>lastAnalysis\<close> gets nothing.
\<close>

theorem analyzePattern_loses_response_text:
  "reply (analyzePattern (responseEngine (str ''You study late.'')) planned (str ''Analyze my study habits so far.''))
     = str ''You study late.''
   \<and> lastAnalysis (newState
        (analyzePattern (responseEngine (str ''You study late.'')) planned (str ''Analyze my study habits so far.'')))
     = None"
  by (simp add: analyzePattern_def reply_eval Let_def)

text \<open>The rest of what the specification says of \<open>analyzePattern\<close> holds of the code.\<close>

lemma sliceLast_length: "length (sliceLast n xs) \<le> n"
  by (simp add: sliceLast_def)

lemma analyzePattern_effect:
  "newState (analyzePattern env state message) =
     state\<lparr>lastAnalysis := optResult (env \<lparr>systemPrompt = AnalyzePrompt (sliceLast 10 (sessions state)) message,
                                             userContent = str ''Analyze my patterns'', max_tokens = 500\<rparr>)\<rparr>
   \<and> reply (analyzePattern env state message) =
       replyText (env \<lparr>systemPrompt = AnalyzePrompt (sliceLast 10 (sessions state)) message,
                        userContent = str ''Analyze my patterns'', max_tokens = 500\<rparr>) (str ''No data.'')
   \<and> length (sliceLast 10 (sessions state)) \<le> 10"
  by (simp add: analyzePattern_def Let_def sliceLast_length)

section \<open>The engine gives no text\<close>

lemma replyText_empty: "emptyPayload r \<Longrightarrow> replyText r d = d"
  by (simp add: emptyPayload_def noText_def replyText_def orElse_def split: option.splits)

lemma noText_optResult: "emptyPayload r \<Longrightarrow> noText (optResult r)"
  by (simp add: emptyPayload_def)

lemma handleGeneralChat_empty:
  "(\<And>q. emptyPayload (env q)) \<Longrightarrow>
   handleGeneralChat env state message = \<lparr>reply = fallback general_chat, newState = state\<rparr>"
  by (simp add: handleGeneralChat_def Let_def replyText_empty fallback_def)

lemma answerDirectQuestion_empty:
  "(\<And>q. emptyPayload (env q)) \<Longrightarrow>
   answerDirectQuestion env state message = \<lparr>reply = fallback direct_answer, newState = state\<rparr>"
  by (simp add: answerDirectQuestion_def Let_def replyText_empty fallback_def)

lemma createPlan_empty:
  "(\<And>q. emptyPayload (env q)) \<Longrightarrow>
   createPlan env idNow tsNow state message =
     \<lparr>reply = fallback create_plan,
      newState = state
        \<lparr>lastSession := Some \<lparr>sid = Some (numberToString idNow), timestamp = Some tsNow, goal = Some message,
                              action = Some create_plan, plan = Some (fallback create_plan), outcomeNote = Null\<rparr>,
         sessions := sessions state @
           [\<lparr>sid = Some (numberToString idNow), timestamp = Some tsNow, goal = Some message,
             action = Some create_plan, plan = Some (fallback create_plan), outcomeNote = Null\<rparr>]\<rparr>\<rparr>"
  by (simp add: createPlan_def Let_def replyText_empty fallback_def)

lemma revisePlan_empty:
  "(\<And>q. emptyPayload (env q)) \<Longrightarrow>
   revisePlan env idNow tsNow state message =
     \<lparr>reply = fallback revise_plan,
      newState = state
        \<lparr>lastSession := Some ((spread (lastSession state))
             \<lparr>sid := Some (numberToString idNow), timestamp := Some tsNow, action := Some revise_plan,
              plan := Some (fallback revise_plan)\<rparr>),
         sessions := sessions state @
           [(spread (lastSession state))
              \<lparr>sid := Some (numberToString idNow), timestamp := Some tsNow, action := Some revise_plan,
               plan := Some (fallback revise_plan)\<rparr>]\<rparr>\<rparr>"
  by (simp add: revisePlan_def Let_def replyText_empty fallback_def)

lemma logOutcome_empty:
  "(\<And>q. emptyPayload (env q)) \<Longrightarrow>
   logOutcome env state message =
     \<lparr>reply = fallback log_outcome,
      newState = state
        \<lparr>lastSession := Some ((spread (lastSession state))\<lparr>outcomeNote := Note message\<rparr>),
         sessions := (if sessions state = [] then []
                      else butlast (sessions state) @
                             [(last (sessions state))\<lparr>outcomeNote := Note message\<rparr>])\<rparr>\<rparr>"
  using update_last [of "sessions state" "\<lambda>x. x\<lparr>outcomeNote := Note message\<rparr>"]
  by (simp add: logOutcome_def Let_def replyText_empty fallback_def)

lemma analyzePattern_empty:
  "(\<And>q. emptyPayload (env q)) \<Longrightarrow>
   reply (analyzePattern env state message) = fallback analyze_pattern
   \<and> noText (lastAnalysis (newState (analyzePattern env state message)))
   \<and> sessions (newState (analyzePattern env state message)) = sessions state
   \<and> lastSession (newState (analyzePattern env state message)) = lastSession state"
  by (simp add: analyzePattern_def Let_def replyText_empty fallback_def noText_optResult)

lemma dispatch_empty:
  "(\<And>q. emptyPayload (reqEngine r q)) \<Longrightarrow> reply (dispatch a r state) = fallback a"
  by (cases a)
     (simp_all add: dispatch_def handleGeneralChat_empty answerDirectQuestion_empty createPlan_empty
        revisePlan_empty logOutcome_empty analyzePattern_empty)

text \<open>
  With an absent or empty payload the two chat handlers, \<open>createPlan\<close>, \<open>revisePlan\<close> and
  \<open>logOutcome\<close> reply with their fixed fallback and make their transition with it:
  \<open>createPlan\<close> and \<open>revisePlan\<close> append the session with the fallback as its plan and make
  it \<open>lastSession\<close>, \<open>logOutcome\<close> writes the note, the chat handlers return the state as it
  is; and the chat endpoint answers its caller with the fallback of the action it chose.
\<close>

lemma handlers_fall_back:
  assumes "\<And>q. emptyPayload (env q)"
  shows "handleGeneralChat env state message = \<lparr>reply = fallback general_chat, newState = state\<rparr>
   \<and> answerDirectQuestion env state message = \<lparr>reply = fallback direct_answer, newState = state\<rparr>
   \<and> reply (createPlan env idNow tsNow state message) = fallback create_plan
   \<and> sessions (newState (createPlan env idNow tsNow state message)) =
       sessions state @
         [\<lparr>sid = Some (numberToString idNow), timestamp = Some tsNow, goal = Some message,
           action = Some create_plan, plan = Some (fallback create_plan), outcomeNote = Null\<rparr>]
   \<and> map_option plan (lastSession (newState (createPlan env idNow tsNow state message))) =
       Some (Some (fallback create_plan))
   \<and> reply (revisePlan env idNow tsNow state message) = fallback revise_plan
   \<and> sessions (newState (revisePlan env idNow tsNow state message)) =
       sessions state @
         [(spread (lastSession state))
            \<lparr>sid := Some (numberToString idNow), timestamp := Some tsNow, action := Some revise_plan,
             plan := Some (fallback revise_plan)\<rparr>]
   \<and> map_option plan (lastSession (newState (revisePlan env idNow tsNow state message))) =
       Some (Some (fallback revise_plan))
   \<and> logOutcome env state message =
       \<lparr>reply = fallback log_outcome,
        newState = state
          \<lparr>lastSession := Some ((spread (lastSession state))\<lparr>outcomeNote := Note message\<rparr>),
           sessions := (if sessions state = [] then []
                        else butlast (sessions state) @
                               [(last (sessions state))\<lparr>outcomeNote := Note message\<rparr>])\<rparr>\<rparr>
   \<and> reply (analyzePattern env state message) = fallback analyze_pattern
   \<and> fst (chat stored \<lparr>reqMessage = message, reqEngine = env, reqIdNow = idNow, reqTsNow = tsNow\<rparr>) =
       (fallback (chooseAction (loadStudyState stored) message), chooseAction (loadStudyState stored) message)"
proof -
  have chat: "fst (chat stored \<lparr>reqMessage = message, reqEngine = env, reqIdNow = idNow, reqTsNow = tsNow\<rparr>) =
       (fallback (chooseAction (loadStudyState stored) message), chooseAction (loadStudyState stored) message)"
    using dispatch_empty [of "\<lparr>reqMessage = message, reqEngine = env, reqIdNow = idNow, reqTsNow = tsNow\<rparr>"] assms
    by (simp add: chat_def Let_def)
  show ?thesis
    using chat
    by (simp add: handleGeneralChat_empty [OF assms] answerDirectQuestion_empty [OF assms]
          createPlan_empty [OF assms] revisePlan_empty [OF assms]
          logOutcome_empty [OF assms] analyzePattern_empty [OF assms])
qed

text \<open>
  C8. With an absent or empty payload \<open>analyzePattern\<close> replies with its fallback
  \<open>No data.\<close> but does not make its transition with it: \<open>lastAnalysis\<close> gets
  \<open>aiResult?.result\<close>, which is nothing, so the fallback is not stored and an analysis
  stored before is lost. Here the engine resolves to nothing and the state holds an
  earlier analysis.
\<close>

theorem analyzePattern_empty_payload_stores_nothing:
  "emptyPayload (silentEngine
      \<lparr>systemPrompt = AnalyzePrompt (sliceLast 10 (sessions planned)) (str ''Analyze my study habits so far.''),
       userContent = str ''Analyze my patterns'', max_tokens = 500\<rparr>)
   \<and> lastAnalysis (planned\<lparr>lastAnalysis := Some (str ''You study late.'')\<rparr>) = Some (str ''You study late.'')
   \<and> reply (analyzePattern silentEngine (planned\<lparr>lastAnalysis := Some (str ''You study late.'')\<rparr>)
               (str ''Analyze my study habits so far.'')) = fallback analyze_pattern
   \<and> fallback analyze_pattern = str ''No data.''
   \<and> lastAnalysis (newState
        (analyzePattern silentEngine (planned\<lparr>lastAnalysis := Some (str ''You study late.'')\<rparr>)
           (str ''Analyze my study habits so far.''))) = None"
  by (simp add: analyzePattern_def reply_eval Let_def fallback_def emptyPayload_def noText_def)

section \<open>The window of recent history\<close>

lemma sliceLast_short: "length xs \<le> n \<Longrightarrow> sliceLast n xs = xs"
  by (simp add: sliceLast_def)

lemma sliceLast_append: "sliceLast n (sliceLast n xs @ ys) = sliceLast n (xs @ ys)"
proof (cases "length xs \<le> n")
  case True
  then show ?thesis by (simp add: sliceLast_short)
next
  case False
  then have "length xs + length ys - n = (length xs - n) + length ys" by simp
  with False show ?thesis by (simp add: sliceLast_def add.commute)
qed

lemma saveStudyState_history: "recentHistory (saveStudyState s) = sliceLast 8 (recentHistory s)"
  by (simp add: saveStudyState_def sliceLast_short)

lemma chat_history:
  "recentHistory (snd (chat stored r)) =
     sliceLast 8 (recentHistory (loadStudyState stored) @
       [\<lparr>role = User, content = reqMessage r\<rparr>, \<lparr>role = Assistant, content = fst (fst (chat stored r))\<rparr>])"
  by (simp add: chat_def Let_def saveStudyState_history)

lemma requests_history:
  "rs \<noteq> [] \<Longrightarrow>
   map_option recentHistory (requests stored rs) =
     Some (sliceLast 8 (recentHistory (loadStudyState stored) @ turns stored rs))"
proof (induction rs arbitrary: stored)
  case Nil
  then show ?case by simp
next
  case (Cons r rs)
  show ?case
  proof (cases "rs = []")
    case True
    then show ?thesis by (simp add: chat_history)
  next
    case False
    have "map_option recentHistory (requests (Some (snd (chat stored r))) rs) =
            Some (sliceLast 8 (recentHistory (snd (chat stored r)) @ turns (Some (snd (chat stored r))) rs))"
      using Cons.IH [OF False, of "Some (snd (chat stored r))"] by (simp add: loadStudyState_def)
    then show ?thesis
      by (simp add: chat_history sliceLast_append)
  qed
qed

text \<open>
  C6. After any non-empty sequence of requests, from any content of the store, the stored
  \<open>recentHistory\<close> is the last eight entries (all of them when there are fewer) of the
  chronological log, the history the first request found followed by the user and assistant
  turns of every request in order; so it has at most eight entries, oldest first, and the
  earliest entries are the ones dropped.
\<close>

theorem recentHistory_window:
  assumes "rs \<noteq> []"
  shows "map_option recentHistory (requests stored rs) =
           Some (sliceLast 8 (recentHistory (loadStudyState stored) @ turns stored rs))
       \<and> map_option (\<lambda>s. length (recentHistory s) \<le> 8) (requests stored rs) = Some True"
proof -
  have window: "map_option recentHistory (requests stored rs) =
           Some (sliceLast 8 (recentHistory (loadStudyState stored) @ turns stored rs))"
    using assms by (rule requests_history)
  then obtain s where s: "requests stored rs = Some s"
    and h: "recentHistory s = sliceLast 8 (recentHistory (loadStudyState stored) @ turns stored rs)"
    by (cases "requests stored rs") auto
  have "length (recentHistory s) \<le> 8"
    unfolding h by (rule sliceLast_length)
  with s window show ?thesis by simp
qed

lemma chat_greeting: "fst (fst (chat stored greeting)) = fallback general_chat"
  by (simp add: chat_def Let_def greeting_def chooseAction_hi dispatch_def handleGeneralChat_def
        reply_eval fallback_def)

lemma greeting_message: "reqMessage greeting = str ''hi''"
  by (simp add: greeting_def)

text \<open>Five greetings into an empty store exchange ten turns; the last eight are stored.\<close>

theorem recentHistory_window_witness:
  "[greeting, greeting, greeting, greeting, greeting] \<noteq> []
   \<and> map_option recentHistory (requests None [greeting, greeting, greeting, greeting, greeting]) =
       Some [\<lparr>role = User, content = str ''hi''\<rparr>, \<lparr>role = Assistant, content = fallback general_chat\<rparr>,
             \<lparr>role = User, content = str ''hi''\<rparr>, \<lparr>role = Assistant, content = fallback general_chat\<rparr>,
             \<lparr>role = User, content = str ''hi''\<rparr>, \<lparr>role = Assistant, content = fallback general_chat\<rparr>,
             \<lparr>role = User, content = str ''hi''\<rparr>, \<lparr>role = Assistant, content = fallback general_chat\<rparr>]
   \<and> length (turns None [greeting, greeting, greeting, greeting, greeting]) = 10"
  using recentHistory_window [of "[greeting, greeting, greeting, greeting, greeting]" None]
  by (simp add: chat_greeting greeting_message loadStudyState_def defaults_def sliceLast_def)

section \<open>\<open>lastSession\<close> and the log of sessions\<close>

lemma tracksLast_save: "tracksLast (saveStudyState s) = tracksLast s"
  by (simp add: saveStudyState_def tracksLast_def split: option.split)

lemma tracksLast_history: "tracksLast (s\<lparr>recentHistory := h\<rparr>) = tracksLast s"
  by (simp add: tracksLast_def split: option.split)

lemma tracksLast_createPlan: "tracksLast (newState (createPlan env a b s m))"
  by (simp add: createPlan_def tracksLast_def Let_def)

lemma tracksLast_revisePlan: "tracksLast (newState (revisePlan env a b s m))"
  by (simp add: revisePlan_def tracksLast_def Let_def)

lemma tracksLast_logOutcome:
  "tracksLast s \<Longrightarrow> lastSession s \<noteq> None \<Longrightarrow> tracksLast (newState (logOutcome env s m))"
  using update_last [of "sessions s" "\<lambda>x. x\<lparr>outcomeNote := Note m\<rparr>"]
  by (auto simp add: logOutcome_def tracksLast_def Let_def spread_def)

lemma tracksLast_analyzePattern: "tracksLast s \<Longrightarrow> tracksLast (newState (analyzePattern env s m))"
  by (simp add: analyzePattern_def tracksLast_def Let_def split: option.splits)

lemma tracksLast_dispatch:
  "tracksLast s \<Longrightarrow> tracksLast (newState (dispatch (chooseAction s (reqMessage r)) r s))"
  using chooseAction_log_gate [of s "reqMessage r"]
  by (simp add: dispatch_def tracksLast_createPlan tracksLast_revisePlan tracksLast_logOutcome
        tracksLast_analyzePattern handleGeneralChat_def answerDirectQuestion_def Let_def)

lemma tracksLast_chat: "tracksLast s \<Longrightarrow> tracksLast (snd (chat (Some s) r))"
  using tracksLast_dispatch [of s r]
  by (simp add: chat_def Let_def tracksLast_save tracksLast_history loadStudyState_def)

lemma reachable_tracksLast: "reachable s \<Longrightarrow> tracksLast s"
proof (induction rule: reachable.induct)
  case start
  show ?case by (simp add: loadStudyState_def defaults_def tracksLast_def)
next
  case (step state r)
  then show ?case by (simp add: loadStudyState_def tracksLast_chat)
qed

lemma chat_log_outcome_note:
  assumes "chooseAction s (reqMessage r) = log_outcome" and "tracksLast s"
  shows "map_option outcomeNote (lastSession (snd (chat (Some s) r))) = Some (Note (reqMessage r))
       \<and> sessions (snd (chat (Some s) r)) \<noteq> []
       \<and> outcomeNote (last (sessions (snd (chat (Some s) r)))) = Note (reqMessage r)"
proof -
  from assms(1) have "lastSession s \<noteq> None" by (rule chooseAction_log_gate)
  then obtain x where x: "lastSession s = Some x" by auto
  with assms(2) have ne: "sessions s \<noteq> []" by (simp add: tracksLast_def)
  have new: "newState (logOutcome (reqEngine r) s (reqMessage r)) =
      s\<lparr>lastSession := Some (x\<lparr>outcomeNote := Note (reqMessage r)\<rparr>),
        sessions := butlast (sessions s) @ [(last (sessions s))\<lparr>outcomeNote := Note (reqMessage r)\<rparr>]\<rparr>"
    using update_last [OF ne, of "\<lambda>x. x\<lparr>outcomeNote := Note (reqMessage r)\<rparr>"] x ne
    by (simp add: logOutcome_def Let_def spread_def)
  show ?thesis
    using assms(1) by (simp add: chat_def Let_def loadStudyState_def dispatch_def new saveStudyState_def)
qed

lemma byTransitions_tracksLast: "byTransitions gated s \<Longrightarrow> gated \<Longrightarrow> tracksLast s"
proof (induction rule: byTransitions.induct)
  case (initial gated)
  show ?case by (simp add: defaults_def tracksLast_def)
next
  case (general gated s env m)
  then show ?case by (simp add: handleGeneralChat_def Let_def)
next
  case (answer gated s env m)
  then show ?case by (simp add: answerDirectQuestion_def Let_def)
next
  case (create gated s env idNow tsNow m)
  show ?case by (rule tracksLast_createPlan)
next
  case (revise gated s env idNow tsNow m)
  show ?case by (rule tracksLast_revisePlan)
next
  case (log gated s env m)
  then show ?case by (simp add: tracksLast_logOutcome)
next
  case (analyze gated s env m)
  then show ?case by (simp add: tracksLast_analyzePattern)
qed

lemma logOutcome_note_on_both:
  assumes "tracksLast s" and "lastSession s \<noteq> None"
  shows "map_option outcomeNote (lastSession (newState (logOutcome env s m))) = Some (Note m)
       \<and> sessions (newState (logOutcome env s m)) \<noteq> []
       \<and> outcomeNote (last (sessions (newState (logOutcome env s m)))) = Note m"
proof -
  from assms(2) obtain x where x: "lastSession s = Some x" by auto
  with assms(1) have ne: "sessions s \<noteq> []" by (simp add: tracksLast_def)
  have "newState (logOutcome env s m) =
      s\<lparr>lastSession := Some (x\<lparr>outcomeNote := Note m\<rparr>),
        sessions := butlast (sessions s) @ [(last (sessions s))\<lparr>outcomeNote := Note m\<rparr>]\<rparr>"
    using update_last [OF ne, of "\<lambda>x. x\<lparr>outcomeNote := Note m\<rparr>"] x ne
    by (simp add: logOutcome_def Let_def spread_def)
  then show ?thesis by simp
qed

text \<open>
  C5, as the specification states it, fails: the transition \<open>log_outcome\<close> taken in the
  default state, where the router never selects it, leaves a \<open>lastSession\<close> that is not
  \<open>null\<close> beside an empty \<open>sessions\<close>, which has no last element.
\<close>

theorem lastSession_without_sessions_counterexample:
  "byTransitions False (newState (logOutcome silentEngine defaults (str ''done'')))
   \<and> lastSession (newState (logOutcome silentEngine defaults (str ''done''))) =
       Some \<lparr>sid = None, timestamp = None, goal = None, action = None, plan = None,
             outcomeNote = Note (str ''done'')\<rparr>
   \<and> sessions (newState (logOutcome silentEngine defaults (str ''done''))) = []"
proof -
  have "byTransitions False (newState (logOutcome silentEngine defaults (str ''done'')))"
    by (rule byTransitions.log [OF byTransitions.initial]) simp
  then show ?thesis
    by (simp add: logOutcome_def defaults_def spread_def Let_def)
qed

text \<open>
  C5, amended. The router selects \<open>log_outcome\<close> only when \<open>lastSession\<close> is not \<open>null\<close>. In
  every state reached from the default state by a sequence of action transitions that
  takes \<open>log_outcome\<close> only then, a \<open>lastSession\<close> that is not \<open>null\<close> has the id (and the
  \<open>outcomeNote\<close>) of the last element of \<open>sessions\<close>, and a \<open>log_outcome\<close> transition from it
  leaves the message as \<open>outcomeNote\<close> of both. The same holds of every state the worker
  stores after chat requests on an empty store, and of the requests it sends to
  \<open>log_outcome\<close>.
\<close>

theorem lastSession_tracks_sessions:
  "(chooseAction s m = log_outcome \<longrightarrow> lastSession s \<noteq> None)
   \<and> (byTransitions True s \<longrightarrow>
        (case lastSession s of
           None \<Rightarrow> True
         | Some x \<Rightarrow> sessions s \<noteq> [] \<and> sid x = sid (last (sessions s))
                       \<and> outcomeNote x = outcomeNote (last (sessions s))))
   \<and> (byTransitions True s \<and> lastSession s \<noteq> None \<longrightarrow>
        map_option outcomeNote (lastSession (newState (logOutcome env s m))) = Some (Note m)
        \<and> sessions (newState (logOutcome env s m)) \<noteq> []
        \<and> outcomeNote (last (sessions (newState (logOutcome env s m)))) = Note m)
   \<and> (reachable s \<longrightarrow>
        (case lastSession s of
           None \<Rightarrow> True
         | Some x \<Rightarrow> sessions s \<noteq> [] \<and> sid x = sid (last (sessions s))
                       \<and> outcomeNote x = outcomeNote (last (sessions s))))
   \<and> (reachable s \<and> chooseAction s (reqMessage r) = log_outcome \<longrightarrow>
        map_option outcomeNote (lastSession (snd (chat (Some s) r))) = Some (Note (reqMessage r))
        \<and> sessions (snd (chat (Some s) r)) \<noteq> []
        \<and> outcomeNote (last (sessions (snd (chat (Some s) r)))) = Note (reqMessage r))"
proof -
  have same: "tracksLast s \<Longrightarrow>
        (case lastSession s of
           None \<Rightarrow> True
         | Some x \<Rightarrow> sessions s \<noteq> [] \<and> sid x = sid (last (sessions s))
                       \<and> outcomeNote x = outcomeNote (last (sessions s)))"
    by (simp add: tracksLast_def split: option.splits)
  have gate: "chooseAction s m = log_outcome \<longrightarrow> lastSession s \<noteq> None"
    using chooseAction_log_gate by blast
  have inv: "byTransitions True s \<longrightarrow>
        (case lastSession s of
           None \<Rightarrow> True
         | Some x \<Rightarrow> sessions s \<noteq> [] \<and> sid x = sid (last (sessions s))
                       \<and> outcomeNote x = outcomeNote (last (sessions s)))"
    using byTransitions_tracksLast [of True s] same by blast
  have after: "byTransitions True s \<and> lastSession s \<noteq> None \<longrightarrow>
        map_option outcomeNote (lastSession (newState (logOutcome env s m))) = Some (Note m)
        \<and> sessions (newState (logOutcome env s m)) \<noteq> []
        \<and> outcomeNote (last (sessions (newState (logOutcome env s m)))) = Note m"
    using byTransitions_tracksLast [of True s] logOutcome_note_on_both [of s env m] by blast
  have stored: "reachable s \<longrightarrow>
        (case lastSession s of
           None \<Rightarrow> True
         | Some x \<Rightarrow> sessions s \<noteq> [] \<and> sid x = sid (last (sessions s))
                       \<and> outcomeNote x = outcomeNote (last (sessions s)))"
    using reachable_tracksLast [of s] same by blast
  have logged: "reachable s \<and> chooseAction s (reqMessage r) = log_outcome \<longrightarrow>
        map_option outcomeNote (lastSession (snd (chat (Some s) r))) = Some (Note (reqMessage r))
        \<and> sessions (snd (chat (Some s) r)) \<noteq> []
        \<and> outcomeNote (last (sessions (snd (chat (Some s) r)))) = Note (reqMessage r)"
    using reachable_tracksLast [of s] chat_log_outcome_note [of s r] by blast
  from gate inv after stored logged show ?thesis by blast
qed

lemma drafted_eq:
  "drafted = defaults\<lparr>lastSession := Some firstSession, sessions := [firstSession]\<rparr>"
  by (simp add: drafted_def createPlan_def firstSession_def defaults_def reply_eval Let_def)

text \<open>
  The state after one \<open>create_plan\<close> transition, and the state the worker stores after one
  plan: the report \<open>done\<close> is then logged on both \<open>lastSession\<close> and the last session.
\<close>

theorem lastSession_tracks_sessions_witness:
  "byTransitions True drafted
   \<and> lastSession drafted = Some firstSession
   \<and> sid firstSession = sid (last (sessions drafted))
   \<and> map_option outcomeNote (lastSession (newState (logOutcome silentEngine drafted (str ''done''))))
       = Some (Note (str ''done''))
   \<and> outcomeNote (last (sessions (newState (logOutcome silentEngine drafted (str ''done'')))))
       = Note (str ''done'')
   \<and> reachable planned
   \<and> lastSession planned = Some firstSession
   \<and> sid firstSession = sid (last (sessions planned))
   \<and> chooseAction planned (reqMessage doneRequest) = log_outcome
   \<and> map_option outcomeNote (lastSession (snd (chat (Some planned) doneRequest))) = Some (Note (str ''done''))
   \<and> outcomeNote (last (sessions (snd (chat (Some planned) doneRequest)))) = Note (str ''done'')"
proof -
  have reach: "reachable planned"
    unfolding planned_def by (rule reachable.step [OF reachable.start])
  have trans: "byTransitions True drafted"
    unfolding drafted_def by (rule byTransitions.create [OF byTransitions.initial])
  show ?thesis
    using lastSession_tracks_sessions [of drafted "str ''done''" silentEngine doneRequest]
      lastSession_tracks_sessions [of planned "str ''done''" silentEngine doneRequest] reach trans
    by (simp add: planned_eq drafted_eq defaults_def doneRequest_def chooseAction_done)
qed

section \<open>What the patterns match\<close>

lemma startsWith_iff: "startsWith w s = (\<exists>post. s = w @ post)"
proof
  assume "startsWith w s"
  then have "s = w @ drop (length w) s"
    by (metis append_take_drop_id startsWith_def)
  then show "\<exists>post. s = w @ post" ..
next
  assume "\<exists>post. s = w @ post"
  then show "startsWith w s" by (auto simp add: startsWith_def)
qed

lemma altAt_wordLike:
  assumes "wordLike w"
  shows "altAt prev w rest =
           (\<not> isW prev \<and> startsWith w rest \<and> \<not> isW (hdOpt (drop (length w) rest)))"
proof (cases "startsWith w rest")
  case False
  then show ?thesis by (simp add: altAt_def)
next
  case True
  then obtain post where rest: "rest = w @ post" by (auto simp add: startsWith_iff)
  from assms obtain c cs where w: "w = c # cs" and c: "isWordChar c"
    by (cases w) (auto simp add: wordLike_def)
  from assms have l: "isWordChar (last w)" and ne: "w \<noteq> []" by (auto simp add: wordLike_def)
  have "hdOpt rest = Some c" by (simp add: rest w hdOpt_def)
  with c l ne True show ?thesis
    by (simp add: altAt_def wordBoundary_def isW_def)
qed

lemma wholeWord_Nil: "wordLike w \<Longrightarrow> \<not> wholeWord prev w []"
  by (auto simp add: wholeWord_def wordLike_def)

lemma wholeWord_Cons:
  "wholeWord prev w (c # cs) =
     ((\<not> isW prev \<and> startsWith w (c # cs) \<and> \<not> isW (hdOpt (drop (length w) (c # cs))))
      \<or> wholeWord (Some c) w cs)"
proof
  assume "wholeWord prev w (c # cs)"
  then obtain pre post where split: "c # cs = pre @ w @ post"
    and before: "\<not> isW (if pre = [] then prev else Some (last pre))"
    and after: "\<not> isW (hdOpt post)"
    by (auto simp add: wholeWord_def)
  show "(\<not> isW prev \<and> startsWith w (c # cs) \<and> \<not> isW (hdOpt (drop (length w) (c # cs))))
      \<or> wholeWord (Some c) w cs"
  proof (cases pre)
    case Nil
    with split before after show ?thesis by (simp add: startsWith_def)
  next
    case (Cons d pre')
    with split have cs: "cs = pre' @ w @ post" and d: "d = c" by simp_all
    from before Cons d have "\<not> isW (if pre' = [] then Some c else Some (last pre'))"
      by (simp split: if_splits)
    with cs after have "wholeWord (Some c) w cs"
      unfolding wholeWord_def by blast
    then show ?thesis ..
  qed
next
  assume "(\<not> isW prev \<and> startsWith w (c # cs) \<and> \<not> isW (hdOpt (drop (length w) (c # cs))))
      \<or> wholeWord (Some c) w cs"
  then show "wholeWord prev w (c # cs)"
  proof
    assume here: "\<not> isW prev \<and> startsWith w (c # cs) \<and> \<not> isW (hdOpt (drop (length w) (c # cs)))"
    then obtain post where post: "c # cs = w @ post" by (auto simp add: startsWith_iff)
    then have "c # cs = [] @ w @ post" by simp
    moreover from here post have "\<not> isW (hdOpt post)" by (metis append_eq_conv_conj)
    moreover from here have "\<not> isW (if ([]::jsstring) = [] then prev else Some (last []))" by simp
    ultimately show ?thesis unfolding wholeWord_def by blast
  next
    assume "wholeWord (Some c) w cs"
    then obtain pre post where cs: "cs = pre @ w @ post"
      and before: "\<not> isW (if pre = [] then Some c else Some (last pre))"
      and after: "\<not> isW (hdOpt post)"
      by (auto simp add: wholeWord_def)
    from cs have "c # cs = (c # pre) @ w @ post" by simp
    moreover from before have "\<not> isW (if c # pre = [] then prev else Some (last (c # pre)))"
      by (simp split: if_splits)
    ultimately show ?thesis using after unfolding wholeWord_def by blast
  qed
qed

lemma searchFrom_wholeWord:
  assumes "\<forall>w\<in>set ws. wordLike w"
  shows "searchFrom prev ws t = (\<exists>w\<in>set ws. wholeWord prev w t)"
proof (induction t arbitrary: prev)
  case Nil
  have "\<not> list_ex (\<lambda>w. altAt prev w []) ws"
    using assms by (auto simp add: list_ex_iff altAt_wordLike startsWith_def wordLike_def)
  with assms show ?case by (auto simp add: wholeWord_Nil)
next
  case (Cons c cs)
  have "list_ex (\<lambda>w. altAt prev w (c # cs)) ws =
          (\<exists>w\<in>set ws. \<not> isW prev \<and> startsWith w (c # cs) \<and> \<not> isW (hdOpt (drop (length w) (c # cs))))"
    using assms by (auto simp add: list_ex_iff altAt_wordLike)
  with Cons show ?case
    by (auto simp add: wholeWord_Cons)
qed

lemma wordRe_wholeWord:
  "\<forall>w\<in>set ws. wordLike w \<Longrightarrow> wordRe ws text = (\<exists>w\<in>set ws. wholeWord None w text)"
  by (simp add: wordRe_def searchFrom_wholeWord)

lemma isWordChar_foldUnit: "isWordChar (foldUnit c) = isWordChar c"
  by (auto simp add: isWordChar_def foldUnit_def)

lemma wordLike_fold: "wordLike (map foldUnit w) = wordLike w"
  by (cases "w = []") (simp_all add: wordLike_def hd_map last_map isWordChar_foldUnit)

lemma isW_hdOpt: "isW (hdOpt s) = (s \<noteq> [] \<and> isWordChar (hd s))"
  by (cases s) (simp_all add: isW_def hdOpt_def)

lemma isW_last: "isW (if s = [] then None else Some (last s)) = (s \<noteq> [] \<and> isWordChar (last s))"
  by (simp add: isW_def)

lemma wholeWord_fold: "wholeWord None (map foldUnit w) (map foldUnit t) = occursAsWord w t"
proof
  assume "wholeWord None (map foldUnit w) (map foldUnit t)"
  then obtain pre' post' where split: "map foldUnit t = pre' @ map foldUnit w @ post'"
    and before: "\<not> (pre' \<noteq> [] \<and> isWordChar (last pre'))"
    and after: "\<not> (post' \<noteq> [] \<and> isWordChar (hd post'))"
    unfolding wholeWord_def isW_hdOpt isW_last by blast
  from split have "\<exists>us vs. t = us @ vs \<and> pre' = map foldUnit us \<and> map foldUnit w @ post' = map foldUnit vs"
    by (simp add: map_eq_append_conv)
  then obtain pre rest where t: "t = pre @ rest" and pre: "map foldUnit pre = pre'"
    and rest: "map foldUnit rest = map foldUnit w @ post'"
    by auto
  from rest have "\<exists>us vs. rest = us @ vs \<and> map foldUnit w = map foldUnit us \<and> post' = map foldUnit vs"
    by (simp add: map_eq_append_conv)
  then obtain mid post where r: "rest = mid @ post" and mid: "map foldUnit mid = map foldUnit w"
    and post: "map foldUnit post = post'"
    by auto
  have "pre = [] \<or> \<not> isWordChar (last pre)"
    using before pre by (auto simp add: last_map isWordChar_foldUnit)
  moreover have "post = [] \<or> \<not> isWordChar (hd post)"
    using after post by (auto simp add: hd_map isWordChar_foldUnit)
  moreover have "t = pre @ mid @ post" by (simp add: t r)
  ultimately show "occursAsWord w t"
    unfolding occursAsWord_def sameIgnoringCase_def using mid by blast
next
  assume "occursAsWord w t"
  then obtain pre mid post where t: "t = pre @ mid @ post" and mid: "map foldUnit mid = map foldUnit w"
    and before: "pre = [] \<or> \<not> isWordChar (last pre)"
    and after: "post = [] \<or> \<not> isWordChar (hd post)"
    unfolding occursAsWord_def sameIgnoringCase_def by blast
  have "map foldUnit t = map foldUnit pre @ map foldUnit w @ map foldUnit post"
    by (simp add: t mid)
  moreover have "\<not> (map foldUnit pre \<noteq> [] \<and> isWordChar (last (map foldUnit pre)))"
    using before by (auto simp add: last_map isWordChar_foldUnit)
  moreover have "\<not> (map foldUnit post \<noteq> [] \<and> isWordChar (hd (map foldUnit post)))"
    using after by (auto simp add: hd_map isWordChar_foldUnit)
  ultimately show "wholeWord None (map foldUnit w) (map foldUnit t)"
    unfolding wholeWord_def isW_hdOpt isW_last by blast
qed

lemma wordReI_occursAsWord:
  assumes "\<forall>w\<in>set ws. wordLike w"
  shows "wordReI ws t = list_ex (\<lambda>w. occursAsWord w t) ws"
proof -
  have "\<forall>w\<in>set (map (map foldUnit) ws). wordLike w"
    using assms by (simp add: wordLike_fold)
  then have "wordReI ws t = (\<exists>w\<in>set (map (map foldUnit) ws). wholeWord None w (map foldUnit t))"
    unfolding wordReI_def by (rule wordRe_wholeWord)
  also have "\<dots> = (\<exists>w\<in>set ws. occursAsWord w t)"
    by (simp add: wholeWord_fold)
  finally show ?thesis by (simp add: list_ex_iff)
qed

lemma endRe_question: "endRe [63, 65311, 65281] t = endsInQuestionMark t"
  by (cases t rule: rev_cases) (auto simp add: endRe_def endsInQuestionMark_def)

lemma trim_Nil: "trim [] = []"
  by (simp add: trim_def)

lemma isDirectQuestion_refines:
  "isDirectQuestion message = isDirectQuestionSpec message"
proof -
  have planning: "\<forall>w\<in>set [str ''plan'', str ''schedule'', str ''session'', str ''block'']. wordLike w"
    by (simp add: wordLike_def str_def isWordChar_def)
  have pronouns: "\<forall>w\<in>set [str ''we'', str ''I'', str ''me'', str ''my'']. wordLike w"
    by (simp add: wordLike_def str_def isWordChar_def)
  show ?thesis
  proof (cases "message = []")
    case True
    then show ?thesis
      by (simp add: isDirectQuestion_def isDirectQuestionSpec_def trim_Nil endsInQuestionMark_def)
  next
    case False
    then show ?thesis
      unfolding isDirectQuestion_def isDirectQuestionSpec_def Let_def
        wordReI_occursAsWord [OF planning] wordReI_occursAsWord [OF pronouns] endRe_question
      by auto
  qed
qed

text \<open>
  C9. \<open>isDirectQuestion\<close> is true exactly when the trimmed message ends in a question mark
  (\<open>?\<close>, the full-width question mark or the full-width exclamation mark) and contains none
  of \<open>plan\<close>, \<open>schedule\<close>, \<open>session\<close>, \<open>block\<close> and none of \<open>we\<close>, \<open>I\<close>, \<open>me\<close>, \<open>my\<close> as a whole
  word, letter case ignored; it is true of \<open>What is a pointer?\<close> and false of
  \<open>Can I get a plan?\<close>.
\<close>

theorem isDirectQuestion_meets_spec:
  "(\<forall>message. isDirectQuestion message = isDirectQuestionSpec message)
   \<and> isDirectQuestion (str ''What is a pointer?'')
   \<and> \<not> isDirectQuestion (str ''Can I get a plan?'')"
proof -
  have pointer: "isDirectQuestion (str ''What is a pointer?'')"
    by (simp add: isDirectQuestion_def Let_def regex_eval)
  have plan: "\<not> isDirectQuestion (str ''Can I get a plan?'')"
    by (simp add: isDirectQuestion_def Let_def regex_eval)
  from isDirectQuestion_refines pointer plan show ?thesis by blast
qed

text \<open>The two examples, read through the wording of the specification.\<close>

theorem isDirectQuestion_meets_spec_witness:
  "isDirectQuestionSpec (str ''What is a pointer?'') \<and> \<not> isDirectQuestionSpec (str ''Can I get a plan?'')"
  using isDirectQuestion_meets_spec by blast

section \<open>Affirmations\<close>

lemma wholeWord_prev: "isW p = isW q \<Longrightarrow> wholeWord p w t = wholeWord q w t"
  by (auto simp add: wholeWord_def)

lemma wholeWord_skip:
  assumes "wordLike w" and "\<not> isWordChar c"
  shows "wholeWord prev w (c # cs) = wholeWord None w cs"
proof -
  have "\<not> startsWith w (c # cs)"
    using assms by (cases w) (auto simp add: startsWith_def wordLike_def)
  moreover have "wholeWord (Some c) w cs = wholeWord None w cs"
    using assms(2) by (intro wholeWord_prev) (simp add: isW_def)
  ultimately show ?thesis by (simp add: wholeWord_Cons)
qed

lemma wholeWord_skip_all:
  assumes "wordLike w" and "\<forall>c\<in>set pre. \<not> isWordChar c"
  shows "wholeWord None w (pre @ t) = wholeWord None w t"
  using assms(2) by (induction pre) (simp_all add: wholeWord_skip [OF assms(1)])

lemma wholeWord_snoc:
  assumes "wordLike w" and "\<not> isWordChar c"
  shows "wholeWord prev w (t @ [c]) = wholeWord prev w t"
proof
  assume "wholeWord prev w (t @ [c])"
  then obtain pre post where split: "t @ [c] = pre @ w @ post"
    and before: "\<not> isW (if pre = [] then prev else Some (last pre))"
    and after: "\<not> isW (hdOpt post)"
    by (auto simp add: wholeWord_def)
  show "wholeWord prev w t"
  proof (cases post rule: rev_cases)
    case Nil
    with split assms(1) have "last w = c"
      by (metis append_Nil2 last_appendR last_snoc wordLike_def)
    with assms show ?thesis by (simp add: wordLike_def)
  next
    case (snoc post' d)
    with split have t: "t = pre @ w @ post'" by simp
    from after snoc have "\<not> isW (hdOpt post')"
      by (cases post') (simp_all add: hdOpt_def isW_def)
    with t before show ?thesis unfolding wholeWord_def by blast
  qed
next
  assume "wholeWord prev w t"
  then obtain pre post where t: "t = pre @ w @ post"
    and before: "\<not> isW (if pre = [] then prev else Some (last pre))"
    and after: "\<not> isW (hdOpt post)"
    by (auto simp add: wholeWord_def)
  from t have "t @ [c] = pre @ w @ (post @ [c])" by simp
  moreover from after assms(2) have "\<not> isW (hdOpt (post @ [c]))"
    by (cases post) (simp_all add: hdOpt_def isW_def)
  ultimately show "wholeWord prev w (t @ [c])"
    using before unfolding wholeWord_def by blast
qed

lemma wholeWord_drop_all:
  assumes "wordLike w" and "\<forall>c\<in>set suf. \<not> isWordChar c"
  shows "wholeWord prev w (t @ suf) = wholeWord prev w t"
  using assms(2)
proof (induction suf rule: rev_induct)
  case Nil
  show ?case by simp
next
  case (snoc c suf)
  from snoc.prems have c: "\<not> isWordChar c" and suf: "\<forall>c\<in>set suf. \<not> isWordChar c" by simp_all
  have "wholeWord prev w ((t @ suf) @ [c]) = wholeWord prev w (t @ suf)"
    using assms(1) c by (rule wholeWord_snoc)
  also have "\<dots> = wholeWord prev w t"
    using suf by (rule snoc.IH)
  finally show ?case by simp
qed

lemma wordRe_padded:
  assumes "\<forall>w\<in>set ws. wordLike w"
    and "\<forall>c\<in>set pre. \<not> isWordChar c" and "\<forall>c\<in>set suf. \<not> isWordChar c"
  shows "wordRe ws (pre @ t @ suf) = wordRe ws t"
proof -
  have "\<And>w. w \<in> set ws \<Longrightarrow> wholeWord None w (pre @ t @ suf) = wholeWord None w t"
    using assms by (simp add: wholeWord_skip_all wholeWord_drop_all)
  then show ?thesis
    by (simp add: wordRe_wholeWord [OF assms(1)])
qed

lemma trim_split:
  "\<exists>pre suf. m = pre @ trim m @ suf \<and> (\<forall>c\<in>set pre. isWhiteSpace c) \<and> (\<forall>c\<in>set suf. isWhiteSpace c)"
proof -
  let ?d = "dropWhile isWhiteSpace m"
  have "?d = rev (dropWhile isWhiteSpace (rev ?d)) @ rev (takeWhile isWhiteSpace (rev ?d))"
    by (metis rev_append rev_rev_ident takeWhile_dropWhile_id)
  then have d: "?d = trim m @ rev (takeWhile isWhiteSpace (rev ?d))"
    by (simp add: trim_def)
  have "m = takeWhile isWhiteSpace m @ ?d" by simp
  with d have "m = takeWhile isWhiteSpace m @ trim m @ rev (takeWhile isWhiteSpace (rev ?d))" by simp
  moreover have "\<forall>c\<in>set (takeWhile isWhiteSpace m). isWhiteSpace c"
    by (auto dest: set_takeWhileD)
  moreover have "\<forall>c\<in>set (rev (takeWhile isWhiteSpace (rev ?d))). isWhiteSpace c"
    by (auto dest: set_takeWhileD)
  ultimately show ?thesis by blast
qed

lemma whiteSpace_not_word: "isWhiteSpace c \<Longrightarrow> \<not> isWordChar c"
  by (auto simp add: isWhiteSpace_def isWordChar_def)

lemma lowerUnit_whiteSpace: "isWhiteSpace c \<Longrightarrow> lowerUnit c = [c]"
  by (auto simp add: isWhiteSpace_def lowerUnit_def)

lemma toLowerCase_append: "toLowerCase (xs @ ys) = toLowerCase xs @ toLowerCase ys"
  by (simp add: toLowerCase_def)

lemma toLowerCase_whiteSpace: "\<forall>c\<in>set xs. isWhiteSpace c \<Longrightarrow> toLowerCase xs = xs"
  by (induction xs) (simp_all add: toLowerCase_def lowerUnit_whiteSpace)

lemma toLowerCase_split:
  "\<exists>pre suf. toLowerCase m = pre @ toLowerCase (trim m) @ suf
     \<and> (\<forall>c\<in>set pre. \<not> isWordChar c) \<and> (\<forall>c\<in>set suf. \<not> isWordChar c)"
proof -
  from trim_split obtain pre suf where m: "m = pre @ trim m @ suf"
    and pre: "\<forall>c\<in>set pre. isWhiteSpace c" and suf: "\<forall>c\<in>set suf. isWhiteSpace c"
    by blast
  have "toLowerCase m = toLowerCase (pre @ trim m @ suf)" using m by simp
  then have "toLowerCase m = pre @ toLowerCase (trim m) @ suf"
    by (simp add: toLowerCase_append toLowerCase_whiteSpace pre suf)
  with pre suf show ?thesis by (blast dest: whiteSpace_not_word)
qed

lemma affirmation_cases:
  "affirmationRe a \<Longrightarrow>
   a = str ''ok'' \<or> a = str ''okay'' \<or> a = str ''sure'' \<or> a = str ''fine'' \<or> a = str ''yes''
   \<or> a = str ''go ahead'' \<or> a = str ''do it''"
  by (simp add: affirmationRe_def fullRe_def)

lemma affirmation_no_keyword:
  assumes "affirmationRe a"
  shows "\<not> wordRe [str ''analyse'', str ''analyze'', str ''pattern'', str ''habit'', str ''trend'', str ''history''] a"
    and "\<not> wordRe [str ''finished'', str ''completed'', str ''done'', str ''did it'', str ''failed'',
                   str ''stuck'', str ''fell behind''] a"
    and "\<not> wordRe [str ''plan'', str ''schedule'', str ''agenda'', str ''block'', str ''timetable'',
                   str ''routine''] a"
    and "\<not> wordRe [str ''change'', str ''adjust'', str ''revise'', str ''modify'', str ''tweak'',
                   str ''shorter'', str ''longer''] a"
    and "\<not> wordRe [str ''study'', str ''learn'', str ''review'', str ''prep'', str ''prepare''] a"
    and "\<not> endsInQuestionMark a"
  using affirmation_cases [OF assms]
  by (auto simp add: regex_eval endsInQuestionMark_def)

lemma lowerUnit_last: "lowerUnit c \<noteq> [] \<and> (c = 63 \<or> c = 65311 \<or> c = 65281 \<longrightarrow> lowerUnit c = [c])"
  by (simp add: lowerUnit_def)

lemma question_survives_lowering: "endsInQuestionMark t \<Longrightarrow> endsInQuestionMark (toLowerCase t)"
proof (cases t rule: rev_cases)
  case Nil
  assume "endsInQuestionMark t"
  with Nil show ?thesis by (simp add: endsInQuestionMark_def)
next
  case (snoc ys c)
  assume "endsInQuestionMark t"
  with snoc have "c = 63 \<or> c = 65311 \<or> c = 65281" by (simp add: endsInQuestionMark_def)
  then have "lowerUnit c = [c]" using lowerUnit_last by blast
  then have "toLowerCase t = toLowerCase ys @ [c]"
    by (simp add: snoc toLowerCase_def)
  with \<open>c = 63 \<or> c = 65311 \<or> c = 65281\<close> show ?thesis
    by (simp add: endsInQuestionMark_def)
qed

lemma affirmation_general_chat:
  assumes "affirmationRe (toLowerCase (trim message))"
  shows "chooseAction state message = general_chat"
proof -
  let ?a = "toLowerCase (trim message)"
  from toLowerCase_split obtain pre suf where lower: "toLowerCase message = pre @ ?a @ suf"
    and pre: "\<forall>c\<in>set pre. \<not> isWordChar c" and suf: "\<forall>c\<in>set suf. \<not> isWordChar c"
    by blast
  have padded: "wordRe ws (toLowerCase message) = wordRe ws ?a" if "\<forall>w\<in>set ws. wordLike w" for ws
    unfolding lower using that pre suf by (rule wordRe_padded)
  have r1: "\<not> wordRe [str ''analyse'', str ''analyze'', str ''pattern'', str ''habit'', str ''trend'',
                       str ''history''] (toLowerCase message)"
    using affirmation_no_keyword(1) [OF assms]
    by (subst padded) (simp_all add: wordLike_def str_def isWordChar_def)
  have r2: "\<not> wordRe [str ''finished'', str ''completed'', str ''done'', str ''did it'', str ''failed'',
                   str ''stuck'', str ''fell behind''] (toLowerCase message)"
    using affirmation_no_keyword(2) [OF assms]
    by (subst padded) (simp_all add: wordLike_def str_def isWordChar_def)
  have r3: "\<not> wordRe [str ''plan'', str ''schedule'', str ''agenda'', str ''block'', str ''timetable'',
                   str ''routine''] (toLowerCase message)"
    using affirmation_no_keyword(3) [OF assms]
    by (subst padded) (simp_all add: wordLike_def str_def isWordChar_def)
  have r4: "\<not> wordRe [str ''change'', str ''adjust'', str ''revise'', str ''modify'', str ''tweak'',
                   str ''shorter'', str ''longer''] (toLowerCase message)"
    using affirmation_no_keyword(4) [OF assms]
    by (subst padded) (simp_all add: wordLike_def str_def isWordChar_def)
  have r6: "\<not> wordRe [str ''study'', str ''learn'', str ''review'', str ''prep'', str ''prepare'']
                   (toLowerCase message)"
    using affirmation_no_keyword(5) [OF assms]
    by (subst padded) (simp_all add: wordLike_def str_def isWordChar_def)
  have "\<not> endsInQuestionMark (trim message)"
    using affirmation_no_keyword(6) [OF assms] question_survives_lowering by blast
  then have r7: "\<not> isDirectQuestion message"
    by (simp add: isDirectQuestion_refines isDirectQuestionSpec_def)
  show ?thesis
    by (simp add: chooseAction_def Let_def r1 r2 r3 r4 r6 r7)
qed

text \<open>
  C1. When the trimmed message, in lower case, is one of \<open>ok\<close>, \<open>okay\<close>, \<open>sure\<close>, \<open>fine\<close>,
  \<open>yes\<close>, \<open>go ahead\<close>, \<open>do it\<close>, \<open>chooseAction\<close> returns \<open>general_chat\<close> in every state: no
  earlier rule can fire on such a message. The pattern of rule 5 matches the whole text
  only: it matches \<open>ok\<close>, \<open>yes\<close> and \<open>do it\<close>, and neither \<open>yesterday\<close> nor \<open>OK then\<close>.
\<close>

theorem affirmation_routes_to_general_chat:
  "(affirmationRe (toLowerCase (trim message)) \<longrightarrow> chooseAction state message = general_chat)
   \<and> affirmationRe (toLowerCase (str ''ok''))
   \<and> affirmationRe (toLowerCase (str ''yes''))
   \<and> affirmationRe (toLowerCase (str ''do it''))
   \<and> \<not> affirmationRe (toLowerCase (str ''yesterday''))
   \<and> \<not> affirmationRe (toLowerCase (str ''OK then''))"
proof -
  have examples: "affirmationRe (toLowerCase (str ''ok''))
   \<and> affirmationRe (toLowerCase (str ''yes''))
   \<and> affirmationRe (toLowerCase (str ''do it''))
   \<and> \<not> affirmationRe (toLowerCase (str ''yesterday''))
   \<and> \<not> affirmationRe (toLowerCase (str ''OK then''))"
    by (simp add: regex_eval)
  with affirmation_general_chat show ?thesis by blast
qed

text \<open>A padded affirmation in capitals, on the state with one session.\<close>

theorem affirmation_routes_to_general_chat_witness:
  "affirmationRe (toLowerCase (trim (str ''  Go Ahead '')))
   \<and> chooseAction planned (str ''  Go Ahead '') = general_chat
   \<and> \<not> affirmationRe (toLowerCase (str ''  Go Ahead ''))"
proof -
  have trimmed: "affirmationRe (toLowerCase (trim (str ''  Go Ahead '')))"
    by (simp add: regex_eval)
  have untrimmed: "\<not> affirmationRe (toLowerCase (str ''  Go Ahead ''))"
    by (simp add: regex_eval)
  from affirmation_routes_to_general_chat [of "str ''  Go Ahead ''" planned] trimmed untrimmed
  show ?thesis by blast
qed

end
